theory Spec2Isabelle
  imports Main "HOL-Library.Sublist" "HOL-Library.Multiset"
    "HOL-Library.List_Lexorder" "HOL-Library.Product_Lexorder"
begin

section \<open>Data model (types.ts)\<close>

text \<open>
  Strings are byte lists: a JavaScript string is represented by its UTF-8 encoding, which
  is what the exported CSV blob finally holds. Substring search, prefix test,
  concatenation and the replacement of an ASCII character act on the UTF-8 bytes exactly
  as they act on the code points.
\<close>

definition utf8 :: "nat list \<Rightarrow> string" where
  "utf8 bs = map char_of bs"

datatype OrderType = Income | Expense

datatype OrderStatus = Pending | Completed

text \<open>The optional field \<open>ref?: string\<close> is an \<open>option\<close>: \<open>None\<close> is the absent ref.\<close>

record Order =
  order_id :: string
  order_name :: string
  order_ref :: "string option"
  order_date :: string
  order_type :: OrderType
  order_status :: OrderStatus
  order_addedBy :: string

section \<open>String literals of the source\<close>

definition hdr_type :: string where \<comment> \<open>CSV/PDF header: type\<close>
  "hdr_type = utf8
      [0xD8, 0xA7, 0xD9, 0x84, 0xD9, 0x86, 0xD9, 0x88, 0xD8, 0xB9]"

definition hdr_name :: string where \<comment> \<open>CSV/PDF header: name\<close>
  "hdr_name = utf8
      [0xD8, 0xA7, 0xD9, 0x84, 0xD8, 0xA7, 0xD8, 0xB3, 0xD9, 0x85]"

definition hdr_ref :: string where \<comment> \<open>CSV/PDF header: reference number\<close>
  "hdr_ref = utf8
      [0xD8, 0xA7, 0xD9, 0x84, 0xD8, 0xB1, 0xD9, 0x82, 0xD9, 0x85, 0x20, 0xD8, 0xA7, 0xD9,
       0x84, 0xD9, 0x85, 0xD8, 0xB1, 0xD8, 0xAC, 0xD8, 0xB9, 0xD9, 0x8A]"

definition hdr_date :: string where \<comment> \<open>CSV/PDF header: date\<close>
  "hdr_date = utf8
      [0xD8, 0xA7, 0xD9, 0x84, 0xD8, 0xAA, 0xD8, 0xA7, 0xD8, 0xB1, 0xD9, 0x8A, 0xD8, 0xAE]"

definition hdr_status :: string where \<comment> \<open>CSV/PDF header: status\<close>
  "hdr_status = utf8
      [0xD8, 0xA7, 0xD9, 0x84, 0xD8, 0xAD, 0xD8, 0xA7, 0xD9, 0x84, 0xD8, 0xA9]"

definition hdr_addedBy :: string where \<comment> \<open>CSV/PDF header: added by\<close>
  "hdr_addedBy = utf8
      [0xD8, 0xA3, 0xD8, 0xB6, 0xD9, 0x8A, 0xD9, 0x81, 0x20, 0xD8, 0xA8, 0xD9, 0x88, 0xD8,
       0xA7, 0xD8, 0xB3, 0xD8, 0xB7, 0xD8, 0xA9]"

definition lbl_income :: string where \<comment> \<open>label of type income\<close>
  "lbl_income = utf8
      [0xD8, 0xA7, 0xD8, 0xB3, 0xD8, 0xAA, 0xD9, 0x84, 0xD8, 0xA7, 0xD9, 0x85]"

definition lbl_expense :: string where \<comment> \<open>label of type expense\<close>
  "lbl_expense = utf8
      [0xD8, 0xB5, 0xD8, 0xB1, 0xD9, 0x81]"

definition lbl_pending :: string where \<comment> \<open>label of status pending\<close>
  "lbl_pending = utf8
      [0xD9, 0x82, 0xD9, 0x8A, 0xD8, 0xAF, 0x20, 0xD8, 0xA7, 0xD9, 0x84, 0xD8, 0xA7, 0xD9,
       0x86, 0xD8, 0xAA, 0xD8, 0xB8, 0xD8, 0xA7, 0xD8, 0xB1]"

definition lbl_completed :: string where \<comment> \<open>label of status completed\<close>
  "lbl_completed = utf8
      [0xD9, 0x85, 0xD9, 0x83, 0xD8, 0xAA, 0xD9, 0x85, 0xD9, 0x84]"


definition msg_no_data :: string where \<comment> \<open>toast: there is no data to export\<close>
  "msg_no_data = utf8
      [0xD9, 0x84, 0xD8, 0xA7, 0x20, 0xD8, 0xAA, 0xD9, 0x88, 0xD8, 0xAC, 0xD8, 0xAF, 0x20,
       0xD8, 0xA8, 0xD9, 0x8A, 0xD8, 0xA7, 0xD9, 0x86, 0xD8, 0xA7, 0xD8, 0xAA, 0x20, 0xD9,
       0x84, 0xD8, 0xAA, 0xD8, 0xB5, 0xD8, 0xAF, 0xD9, 0x8A, 0xD8, 0xB1, 0xD9, 0x87, 0xD8,
       0xA7, 0x2E]"

definition msg_pdf_preparing :: string where \<comment> \<open>toast: the PDF file is being prepared\<close>
  "msg_pdf_preparing = utf8
      [0xD8, 0xAC, 0xD8, 0xA7, 0xD8, 0xB1, 0xD9, 0x8A, 0x20, 0xD8, 0xAA, 0xD8, 0xAD, 0xD8,
       0xB6, 0xD9, 0x8A, 0xD8, 0xB1, 0x20, 0xD9, 0x85, 0xD9, 0x84, 0xD9, 0x81, 0x20, 0x50,
       0x44, 0x46, 0x2E, 0x2E, 0x2E]"

definition msg_pdf_done :: string where \<comment> \<open>toast: PDF exported\<close>
  "msg_pdf_done = utf8
      [0xD8, 0xAA, 0xD9, 0x85, 0x20, 0xD8, 0xAA, 0xD8, 0xB5, 0xD8, 0xAF, 0xD9, 0x8A, 0xD8,
       0xB1, 0x20, 0x50, 0x44, 0x46, 0x20, 0xD8, 0xA8, 0xD9, 0x86, 0xD8, 0xAC, 0xD8, 0xA7,
       0xD8, 0xAD, 0x2E]"

definition msg_pdf_failed :: string where \<comment> \<open>toast: an error occurred while loading the font or exporting the PDF\<close>
  "msg_pdf_failed = utf8
      [0xD8, 0xAD, 0xD8, 0xAF, 0xD8, 0xAB, 0x20, 0xD8, 0xAE, 0xD8, 0xB7, 0xD8, 0xA3, 0x20,
       0xD8, 0xA3, 0xD8, 0xAB, 0xD9, 0x86, 0xD8, 0xA7, 0xD8, 0xA1, 0x20, 0xD8, 0xAA, 0xD8,
       0xAD, 0xD9, 0x85, 0xD9, 0x8A, 0xD9, 0x84, 0x20, 0xD8, 0xA7, 0xD9, 0x84, 0xD8, 0xAE,
       0xD8, 0xB7, 0x20, 0xD8, 0xA3, 0xD9, 0x88, 0x20, 0xD8, 0xAA, 0xD8, 0xB5, 0xD8, 0xAF,
       0xD9, 0x8A, 0xD8, 0xB1, 0x20, 0x50, 0x44, 0x46, 0x2E]"

definition msg_deleted :: string where \<comment> \<open>toast: the selected orders were deleted\<close>
  "msg_deleted = utf8
      [0xD8, 0xAA, 0xD9, 0x85, 0x20, 0xD8, 0xAD, 0xD8, 0xB0, 0xD9, 0x81, 0x20, 0xD8, 0xA7,
       0xD9, 0x84, 0xD8, 0xA3, 0xD9, 0x88, 0xD8, 0xB1, 0xD8, 0xAF, 0xD8, 0xB1, 0xD8, 0xA7,
       0xD8, 0xAA, 0x20, 0xD8, 0xA7, 0xD9, 0x84, 0xD9, 0x85, 0xD8, 0xAD, 0xD8, 0xAF, 0xD8,
       0xAF, 0xD8, 0xA9, 0x20, 0xD8, 0xA8, 0xD9, 0x86, 0xD8, 0xAC, 0xD8, 0xA7, 0xD8, 0xAD,
       0x2E]"

definition txt_pdf_title :: string where \<comment> \<open>PDF title: orders report\<close>
  "txt_pdf_title = utf8
      [0xD8, 0xAA, 0xD9, 0x82, 0xD8, 0xB1, 0xD9, 0x8A, 0xD8, 0xB1, 0x20, 0xD8, 0xA7, 0xD9,
       0x84, 0xD8, 0xA3, 0xD9, 0x88, 0xD8, 0xB1, 0xD8, 0xAF, 0xD8, 0xB1, 0xD8, 0xA7, 0xD8,
       0xAA]"

definition txt_modal_title :: string where \<comment> \<open>confirm dialog title: confirm deletion\<close>
  "txt_modal_title = utf8
      [0xD8, 0xAA, 0xD8, 0xA3, 0xD9, 0x83, 0xD9, 0x8A, 0xD8, 0xAF, 0x20, 0xD8, 0xA7, 0xD9,
       0x84, 0xD8, 0xAD, 0xD8, 0xB0, 0xD9, 0x81]"

definition txt_modal_msg_pre :: string where \<comment> \<open>confirm dialog message, before the count\<close>
  "txt_modal_msg_pre = utf8
      [0xD9, 0x87, 0xD9, 0x84, 0x20, 0xD8, 0xA3, 0xD9, 0x86, 0xD8, 0xAA, 0x20, 0xD9, 0x85,
       0xD8, 0xAA, 0xD8, 0xA3, 0xD9, 0x83, 0xD8, 0xAF, 0x20, 0xD9, 0x85, 0xD9, 0x86, 0x20,
       0xD8, 0xB1, 0xD8, 0xBA, 0xD8, 0xA8, 0xD8, 0xAA, 0xD9, 0x83, 0x20, 0xD9, 0x81, 0xD9,
       0x8A, 0x20, 0xD8, 0xAD, 0xD8, 0xB0, 0xD9, 0x81, 0x20]"

definition txt_modal_msg_post :: string where \<comment> \<open>confirm dialog message, after the count: this cannot be undone\<close>
  "txt_modal_msg_post = utf8
      [0x20, 0xD8, 0xA3, 0xD9, 0x88, 0xD8, 0xB1, 0xD8, 0xAF, 0xD8, 0xB1, 0x28, 0xD8, 0xA7,
       0xD8, 0xAA, 0x29, 0xD8, 0x9F, 0x20, 0xD9, 0x84, 0xD8, 0xA7, 0x20, 0xD9, 0x8A, 0xD9,
       0x85, 0xD9, 0x83, 0xD9, 0x86, 0x20, 0xD8, 0xA7, 0xD9, 0x84, 0xD8, 0xAA, 0xD8, 0xB1,
       0xD8, 0xA7, 0xD8, 0xAC, 0xD8, 0xB9, 0x20, 0xD8, 0xB9, 0xD9, 0x86, 0x20, 0xD9, 0x87,
       0xD8, 0xB0, 0xD8, 0xA7, 0x20, 0xD8, 0xA7, 0xD9, 0x84, 0xD8, 0xA5, 0xD8, 0xAC, 0xD8,
       0xB1, 0xD8, 0xA7, 0xD8, 0xA1, 0x2E]"

definition txt_modal_confirmText :: string where \<comment> \<open>confirm dialog button: yes, delete\<close>
  "txt_modal_confirmText = utf8
      [0xD9, 0x86, 0xD8, 0xB9, 0xD9, 0x85, 0xD8, 0x8C, 0x20, 0xD8, 0xA7, 0xD8, 0xAD, 0xD8,
       0xB0, 0xD9, 0x81]"

definition txt_btn_delete_pre :: string where \<comment> \<open>delete button label, before the count\<close>
  "txt_btn_delete_pre = utf8
      [0xD9, 0x85, 0xD8, 0xB3, 0xD8, 0xAD, 0x20, 0xD8, 0xA7, 0xD9, 0x84, 0xD9, 0x85, 0xD8,
       0xAD, 0xD8, 0xAF, 0xD8, 0xAF, 0x20, 0x28]"

definition txt_sum_no_ref :: string where \<comment> \<open>summary: placeholder of a missing ref\<close>
  "txt_sum_no_ref = utf8
      [0xD9, 0x84, 0xD8, 0xA7, 0x20, 0xD9, 0x8A, 0xD9, 0x88, 0xD8, 0xAC, 0xD8, 0xAF]"

definition txt_sum_type :: string where \<comment> \<open>summary line piece\<close>
  "txt_sum_type = utf8
      [0x2D, 0x20, 0xD8, 0xA7, 0xD9, 0x84, 0xD9, 0x86, 0xD9, 0x88, 0xD8, 0xB9, 0x3A, 0x20]"

definition txt_sum_name :: string where \<comment> \<open>summary line piece\<close>
  "txt_sum_name = utf8
      [0x2C, 0x20, 0xD8, 0xA7, 0xD9, 0x84, 0xD8, 0xA7, 0xD8, 0xB3, 0xD9, 0x85, 0x3A, 0x20]"

definition txt_sum_ref :: string where \<comment> \<open>summary line piece\<close>
  "txt_sum_ref = utf8
      [0x2C, 0x20, 0xD8, 0xA7, 0xD9, 0x84, 0xD9, 0x85, 0xD8, 0xB1, 0xD8, 0xAC, 0xD8, 0xB9,
       0x3A, 0x20]"

definition txt_sum_status :: string where \<comment> \<open>summary line piece\<close>
  "txt_sum_status = utf8
      [0x2C, 0x20, 0xD8, 0xA7, 0xD9, 0x84, 0xD8, 0xAD, 0xD8, 0xA7, 0xD9, 0x84, 0xD8, 0xA9,
       0x3A, 0x20]"

definition txt_sum_date :: string where \<comment> \<open>summary line piece\<close>
  "txt_sum_date = utf8
      [0x2C, 0x20, 0xD8, 0xA7, 0xD9, 0x84, 0xD8, 0xAA, 0xD8, 0xA7, 0xD8, 0xB1, 0xD9, 0x8A,
       0xD8, 0xAE, 0x3A, 0x20]"

definition txt_report_prefix :: string where \<comment> \<open>file name prefix: orders report\<close>
  "txt_report_prefix = utf8
      [0xD8, 0xAA, 0xD9, 0x82, 0xD8, 0xB1, 0xD9, 0x8A, 0xD8, 0xB1, 0x5F, 0xD8, 0xA7, 0xD9,
       0x84, 0xD8, 0xA3, 0xD9, 0x88, 0xD8, 0xB1, 0xD8, 0xAF, 0xD8, 0xB1, 0xD8, 0xA7, 0xD8,
       0xAA, 0x5F]"

section \<open>The JavaScript runtime\<close>

text \<open>
  The functions of the platform that the source calls and whose results are not fixed by
  the source itself are parameters of the model: Unicode lower-casing, the collator behind
  \<open>localeCompare\<close> (for the locale \<open>ar\<close>, and the default locale with the option
  \<open>numeric: true\<close>), the date parser (\<open>None\<close> is the time value NaN of an invalid
  date), the two date formatters and \<open>btoa\<close>.
\<close>

record js_runtime =
  toLowerCase :: "string \<Rightarrow> string"
  localeCompare_ar :: "string \<Rightarrow> string \<Rightarrow> int"
  localeCompare_numeric :: "string \<Rightarrow> string \<Rightarrow> int"
  date_getTime :: "string \<Rightarrow> int option"
  toLocaleDateString_arEG :: "string \<Rightarrow> string"
  date_toISOString :: "string \<Rightarrow> string"
  btoa :: "string \<Rightarrow> string"

text \<open>\<open>s.includes(t)\<close>: \<open>t\<close> occurs in \<open>s\<close> as a contiguous run.\<close>

fun js_includes :: "string \<Rightarrow> string \<Rightarrow> bool" where
  "js_includes [] t = (t = [])"
| "js_includes (c # cs) t = (prefix t (c # cs) \<or> js_includes cs t)"

definition startsWith :: "string \<Rightarrow> string \<Rightarrow> bool" where
  "startsWith s p = prefix p s"

text \<open>\<open>r || d\<close> for an optional string: \<open>undefined\<close> and the empty string are falsy.\<close>

definition ref_or :: "string option \<Rightarrow> string \<Rightarrow> string" where
  "ref_or r d = (case r of None \<Rightarrow> d | Some s \<Rightarrow> if s = [] then d else s)"

text \<open>\<open>xs.join(sep)\<close>.\<close>

fun join :: "string \<Rightarrow> string list \<Rightarrow> string" where
  "join sep [] = []"
| "join sep [x] = x"
| "join sep (x # y # ys) = x @ sep @ join sep (y # ys)"

text \<open>\<open>String(n)\<close> for a non-negative integer: its decimal digits.\<close>

fun decimal :: "nat \<Rightarrow> string" where
  "decimal n =
     (if n < 10 then [''0123456789'' ! n]
      else decimal (n div 10) @ [''0123456789'' ! (n mod 10)])"

declare decimal.simps [simp del]

definition is_digit :: "char \<Rightarrow> bool" where
  "is_digit c = (48 \<le> (of_char c :: nat) \<and> (of_char c :: nat) \<le> 57)"

text \<open>\<open>toArabicNumerals\<close>: every ASCII digit is replaced by the Arabic-Indic digit.\<close>

definition arabicNumerals :: "string list" where
  "arabicNumerals = map utf8
     [[0xD9, 0xA0], [0xD9, 0xA1], [0xD9, 0xA2], [0xD9, 0xA3], [0xD9, 0xA4],
      [0xD9, 0xA5], [0xD9, 0xA6], [0xD9, 0xA7], [0xD9, 0xA8], [0xD9, 0xA9]]"

definition toArabicNumerals :: "string option \<Rightarrow> string" where
  "toArabicNumerals numStr =
     (case numStr of
        None \<Rightarrow> []
      | Some str \<Rightarrow>
          concat (map (\<lambda>w. if is_digit w then arabicNumerals ! (of_char w - 48) else [w]) str))"

section \<open>Projection pipeline (App: filteredAndSortedOrders, incomeOrders, expenseOrders)\<close>

record view_params =
  searchTerm :: string
  dateFilter :: string
  statusFilter :: "OrderStatus option"
  sortOption :: string

text \<open>
  The predicate handed to \<open>orders.filter\<close>. \<open>order.ref && ...\<close> is falsy for an
  absent and for an empty ref; \<open>!dateFilter\<close> holds for the empty string and
  \<open>!statusFilter\<close> for the empty choice (\<open>None\<close>).
\<close>

definition matchesSearch :: "js_runtime \<Rightarrow> string \<Rightarrow> Order \<Rightarrow> bool" where
  "matchesSearch rt term ord =
     (let lowerSearchTerm = toLowerCase rt term
      in js_includes (toLowerCase rt (order_name ord)) lowerSearchTerm \<or>
         (case order_ref ord of
            None \<Rightarrow> False
          | Some r \<Rightarrow> r \<noteq> [] \<and> js_includes (toLowerCase rt r) lowerSearchTerm))"

definition matchesDate :: "string \<Rightarrow> Order \<Rightarrow> bool" where
  "matchesDate df ord = (df = [] \<or> startsWith (order_date ord) df)"

definition matchesStatus :: "OrderStatus option \<Rightarrow> Order \<Rightarrow> bool" where
  "matchesStatus sf ord = (case sf of None \<Rightarrow> True | Some s \<Rightarrow> order_status ord = s)"

definition filtered :: "js_runtime \<Rightarrow> view_params \<Rightarrow> Order list \<Rightarrow> Order list" where
  "filtered rt p os =
     filter (\<lambda>ord. matchesSearch rt (searchTerm p) ord \<and> matchesDate (dateFilter p) ord \<and>
                   matchesStatus (statusFilter p) ord) os"

text \<open>
  The comparator handed to \<open>sort\<close>. A difference of time values is NaN when either date
  is invalid, and \<open>sort\<close> reads a NaN result as \<open>+0\<close>.
\<close>

definition date_diff :: "js_runtime \<Rightarrow> Order \<Rightarrow> Order \<Rightarrow> int" where
  "date_diff rt a b =
     (case (date_getTime rt (order_date a), date_getTime rt (order_date b)) of
        (Some x, Some y) \<Rightarrow> x - y
      | _ \<Rightarrow> 0)"

definition compareOrders :: "js_runtime \<Rightarrow> string \<Rightarrow> Order \<Rightarrow> Order \<Rightarrow> int" where
  "compareOrders rt opt a b =
     (if opt = ''date-asc'' then date_diff rt a b
      else if opt = ''name-asc'' then localeCompare_ar rt (order_name a) (order_name b)
      else if opt = ''name-desc'' then localeCompare_ar rt (order_name b) (order_name a)
      else if opt = ''ref-asc'' then
        localeCompare_numeric rt (ref_or (order_ref a) []) (ref_or (order_ref b) [])
      else if opt = ''ref-desc'' then
        localeCompare_numeric rt (ref_or (order_ref b) []) (ref_or (order_ref a) [])
      else date_diff rt b a)"

text \<open>
  \<open>Array.prototype.sort\<close> with a comparator: a stable sort (ECMAScript 2019), here
  insertion from the right end, which keeps the earlier of two elements that compare
  as equal in front. For a consistent comparator the result of a stable sort is unique.
  For any other (an invalid date makes the date comparators inconsistent) ECMAScript
  leaves the order to the implementation, and an engine may then order the elements
  differently from this function; the result is a permutation of the input either way.
  The array sorted is the fresh one \<open>filter\<close> returned, so \<open>orders\<close> is not changed.
\<close>

fun insert_by :: "('a \<Rightarrow> 'a \<Rightarrow> int) \<Rightarrow> 'a \<Rightarrow> 'a list \<Rightarrow> 'a list" where
  "insert_by cmp x [] = [x]"
| "insert_by cmp x (y # ys) = (if cmp x y \<le> 0 then x # y # ys else y # insert_by cmp x ys)"

definition js_sort :: "('a \<Rightarrow> 'a \<Rightarrow> int) \<Rightarrow> 'a list \<Rightarrow> 'a list" where
  "js_sort cmp xs = foldr (insert_by cmp) xs []"

definition filteredAndSortedOrders :: "js_runtime \<Rightarrow> view_params \<Rightarrow> Order list \<Rightarrow> Order list" where
  "filteredAndSortedOrders rt p os = js_sort (compareOrders rt (sortOption p)) (filtered rt p os)"

definition incomeOrders :: "Order list \<Rightarrow> Order list" where
  "incomeOrders fs = filter (\<lambda>ord. order_type ord = Income) fs"

definition expenseOrders :: "Order list \<Rightarrow> Order list" where
  "expenseOrders fs = filter (\<lambda>ord. order_type ord = Expense) fs"

section \<open>Application state and effects (App)\<close>

datatype toast_type = ToastSuccess | ToastError

text \<open>
  The props of the confirm dialog. Its callback \<open>onConfirm\<close> is a closure over the
  \<open>selectedOrders\<close> of the render in which the dialog was opened; the record keeps that
  captured selection.
\<close>

record ConfirmModalProps =
  title :: string
  message :: string
  confirmText :: string
  captured :: "string set"

record app_state =
  orders :: "Order list"
  selectedOrders :: "string set"
  toast :: "(string \<times> toast_type) option"
  confirmModal :: "ConfirmModalProps option"

record pdf_doc =
  doc_font :: string
  doc_title :: string
  doc_head :: "string list list"
  doc_body :: "string list list"
  doc_filename :: string

text \<open>What a handler does besides updating the state, in the order it does it.\<close>

datatype effect =
    ShowToast string toast_type
  | ConsoleError
  | DownloadFile string string
  | SaveDocument pdf_doc

definition showToast :: "string \<Rightarrow> toast_type \<Rightarrow> app_state \<Rightarrow> app_state" where
  "showToast msg ty st = st\<lparr>toast := Some (msg, ty)\<rparr>"

text \<open>
  The orders subscription: \<open>getOrders(setOrders)\<close> hands every snapshot to \<open>setOrders\<close>,
  which replaces the record set and touches nothing else.
\<close>

definition setOrders :: "Order list \<Rightarrow> app_state \<Rightarrow> app_state" where
  "setOrders snapshot st = st\<lparr>orders := snapshot\<rparr>"

text \<open>
  The count on the delete button, rendered only for an admin with a non-empty selection:
  \<open>toArabicNumerals(selectedOrders.size)\<close>.
\<close>

definition selection_count_display :: "bool \<Rightarrow> app_state \<Rightarrow> string option" where
  "selection_count_display isAdmin st =
     (if isAdmin \<and> card (selectedOrders st) > 0
      then Some (toArabicNumerals (Some (decimal (card (selectedOrders st)))))
      else None)"

section \<open>Selection tracker (App: handleSelectOrder, handleSelectAll)\<close>

text \<open>
  \<open>handleSelectOrder\<close>: the updater passed to \<open>setSelectedOrders\<close>, applied to the
  previous set. It copies the set, deletes the id when the copy has it and adds it
  otherwise.
\<close>

definition handleSelectOrder :: "string \<Rightarrow> string set \<Rightarrow> string set" where
  "handleSelectOrder orderId prev =
     (if orderId \<in> prev then prev - {orderId} else insert orderId prev)"

text \<open>
  \<open>handleSelectAll\<close>: \<open>ordersToSelect\<close> is the income or the expense partition;
  \<open>allVisibleSelected\<close> is read from the rendered selection, the loops run on a copy of
  \<open>prev\<close>. The two \<open>forEach\<close> loops are folds over the partition.
\<close>

definition delete_each :: "Order list \<Rightarrow> string set \<Rightarrow> string set" where
  "delete_each ordersToSelect newSet = fold (\<lambda>ord s. s - {order_id ord}) ordersToSelect newSet"

definition add_each :: "Order list \<Rightarrow> string set \<Rightarrow> string set" where
  "add_each ordersToSelect newSet = fold (\<lambda>ord s. insert (order_id ord) s) ordersToSelect newSet"

definition handleSelectAll ::
  "OrderType \<Rightarrow> Order list \<Rightarrow> Order list \<Rightarrow> string set \<Rightarrow> string set \<Rightarrow> string set" where
  "handleSelectAll ty inc exp rendered prev =
     (let ordersToSelect = (if ty = Income then inc else exp);
          allVisibleSelected = list_all (\<lambda>ord. order_id ord \<in> rendered) ordersToSelect
      in if allVisibleSelected then delete_each ordersToSelect prev
         else add_each ordersToSelect prev)"

text \<open>
  A click on the header checkbox of the table of type \<open>ty\<close>: the partitions are those of
  the current projection, and the rendered selection is the state's.
\<close>

definition selectAllVisible :: "js_runtime \<Rightarrow> view_params \<Rightarrow> OrderType \<Rightarrow> app_state \<Rightarrow> app_state" where
  "selectAllVisible rt p ty st =
     (let fs = filteredAndSortedOrders rt p (orders st)
      in st\<lparr>selectedOrders :=
              handleSelectAll ty (incomeOrders fs) (expenseOrders fs)
                (selectedOrders st) (selectedOrders st)\<rparr>)"

text \<open>The ids the checkbox of the table of type \<open>ty\<close> acts on.\<close>

definition visible_ids :: "js_runtime \<Rightarrow> view_params \<Rightarrow> OrderType \<Rightarrow> app_state \<Rightarrow> string set" where
  "visible_ids rt p ty st =
     order_id ` set (filter (\<lambda>ord. order_type ord = ty) (filteredAndSortedOrders rt p (orders st)))"

section \<open>Batch delete (App: handleDeleteSelected; firebaseService: deleteOrders)\<close>

text \<open>
  \<open>deleteOrders\<close> queues one delete per id and awaits \<open>batch.commit()\<close>. The store decides
  whether the commit succeeds; a rejected commit rejects the promise and changes nothing.
\<close>

datatype commit_outcome = CommitResolves | CommitRejects

definition deleteOrders ::
  "commit_outcome \<Rightarrow> string set \<Rightarrow> (string \<rightharpoonup> Order) \<Rightarrow> unit + (string \<rightharpoonup> Order)" where
  "deleteOrders c orderIds store =
     (case c of
        CommitRejects \<Rightarrow> Inl ()
      | CommitResolves \<Rightarrow> Inr (\<lambda>k. if k \<in> orderIds then None else store k))"

definition handleDeleteSelected :: "app_state \<Rightarrow> app_state" where
  "handleDeleteSelected st =
     (if card (selectedOrders st) = 0 then st
      else st\<lparr>confirmModal := Some
        \<lparr>title = txt_modal_title,
         message = txt_modal_msg_pre @ decimal (card (selectedOrders st)) @ txt_modal_msg_post,
         confirmText = txt_modal_confirmText,
         captured = selectedOrders st\<rparr>\<rparr>)"

text \<open>
  The promise of the \<open>async\<close> callback \<open>onConfirm\<close>, for the selection \<open>ids\<close> its
  closure captured: it has no \<open>try\<close>, so a rejected \<open>deleteOrders\<close> rejects it at the
  \<open>await\<close> and the three statements after it do not run. Nothing handles the rejected
  promise.
\<close>

datatype promise_outcome = Fulfilled | Rejected

definition onConfirm ::
  "commit_outcome \<Rightarrow> string set \<Rightarrow> (string \<rightharpoonup> Order) \<Rightarrow> app_state
     \<Rightarrow> promise_outcome \<times> effect list \<times> app_state \<times> (string \<rightharpoonup> Order)" where
  "onConfirm c ids store st =
     (case deleteOrders c ids store of
        Inl _ \<Rightarrow> (Rejected, [], st, store)
      | Inr store' \<Rightarrow>
          (Fulfilled, [ShowToast msg_deleted ToastSuccess],
           (showToast msg_deleted ToastSuccess (st\<lparr>selectedOrders := {}\<rparr>))\<lparr>confirmModal := None\<rparr>,
           store'))"

text \<open>
  A click on the confirm button of the open dialog runs its \<open>onConfirm\<close>; without a
  dialog there is no button.
\<close>

definition confirm_click ::
  "commit_outcome \<Rightarrow> (string \<rightharpoonup> Order) \<Rightarrow> app_state
     \<Rightarrow> (promise_outcome \<times> effect list \<times> app_state \<times> (string \<rightharpoonup> Order)) option" where
  "confirm_click c store st =
     (case confirmModal st of
        None \<Rightarrow> None
      | Some props \<Rightarrow> Some (onConfirm c (captured props) store st))"

definition onCancel :: "app_state \<Rightarrow> app_state" where
  "onCancel st = st\<lparr>confirmModal := None\<rparr>"

section \<open>CSV export (App: escapeCsvField, handleExportCSV)\<close>

definition replace_quotes :: "string \<Rightarrow> string" where
  \<comment> \<open>\<open>str.replace(/"/g, '""')\<close>\<close>
  "replace_quotes str = concat (map (\<lambda>c. if c = CHR 0x22 then [CHR 0x22, CHR 0x22] else [c]) str)"

definition needs_quoting :: "string \<Rightarrow> bool" where
  \<comment> \<open>\<open>str.includes(',') || str.includes('"') || str.includes('\n')\<close>\<close>
  "needs_quoting str = (CHR '','' \<in> set str \<or> CHR 0x22 \<in> set str \<or> CHR 0x0A \<in> set str)"

definition escapeCsvField :: "string option \<Rightarrow> string" where
  "escapeCsvField field =
     (case field of
        None \<Rightarrow> []
      | Some str \<Rightarrow>
          if needs_quoting str then CHR 0x22 # replace_quotes str @ [CHR 0x22] else str)"

definition csv_headers :: "string list" where
  "csv_headers = [hdr_type, hdr_name, hdr_ref, hdr_date, hdr_status, hdr_addedBy]"

definition type_label :: "OrderType \<Rightarrow> string" where
  "type_label ty = (if ty = Income then lbl_income else lbl_expense)"

definition status_label :: "OrderStatus \<Rightarrow> string" where
  "status_label s = (if s = Pending then lbl_pending else lbl_completed)"

definition csv_ref_field :: "Order \<Rightarrow> string" where \<comment> \<open>\<open>o.ref || ''\<close>\<close>
  "csv_ref_field ord = ref_or (order_ref ord) []"

definition csv_fields :: "js_runtime \<Rightarrow> Order \<Rightarrow> string list" where
  "csv_fields rt ord =
     [type_label (order_type ord), order_name ord, csv_ref_field ord,
      toLocaleDateString_arEG rt (order_date ord), status_label (order_status ord),
      order_addedBy ord]"

definition csv_row :: "js_runtime \<Rightarrow> Order \<Rightarrow> string list" where
  "csv_row rt ord = map (\<lambda>f. escapeCsvField (Some f)) (csv_fields rt ord)"

definition bom :: string where \<comment> \<open>U+FEFF\<close>
  "bom = utf8 [0xEF, 0xBB, 0xBF]"

definition crlf :: string where
  "crlf = [CHR 0x0D, CHR 0x0A]"

text \<open>The content handed to the blob; the \<open>forEach\<close> over the rows appends to it.\<close>

definition csvContent :: "js_runtime \<Rightarrow> Order list \<Rightarrow> string" where
  "csvContent rt fs =
     fold (\<lambda>rowArray content. content @ join '','' rowArray @ crlf)
       (map (csv_row rt) fs) (bom @ join '','' csv_headers @ crlf)"

text \<open>\<open>s.split('T')[0]\<close>: what stands before the first \<open>T\<close>.\<close>

definition split_T_first :: "string \<Rightarrow> string" where
  "split_T_first s = takeWhile (\<lambda>c. c \<noteq> CHR ''T'') s"


section \<open>PDF export (App: handleExportPDF)\<close>

text \<open>
  What the \<open>fetch\<close> of the font does: the request rejects, the response is not \<open>ok\<close>
  (with its status text), reading the body rejects, or the bytes of the font arrive.
\<close>

datatype font_fetch = FetchRejects | ResponseNotOk string | BodyRejects | FontBytes string

definition arrayBufferToBase64 :: "js_runtime \<Rightarrow> string \<Rightarrow> string" where
  "arrayBufferToBase64 rt buffer = btoa rt (fold (\<lambda>b binary. binary @ [b]) buffer [])"

definition pdf_head :: "string list list" where
  "pdf_head = [[hdr_addedBy, hdr_status, hdr_date, hdr_ref, hdr_name, hdr_type]]"

definition pdf_ref_cell :: "Order \<Rightarrow> string" where \<comment> \<open>\<open>o.ref || 'N/A'\<close>\<close>
  "pdf_ref_cell ord = ref_or (order_ref ord) ''N/A''"

text \<open>A body row; \<open>toISOString\<close> throws a RangeError on an invalid date (\<open>None\<close>).\<close>

definition pdf_row :: "js_runtime \<Rightarrow> Order \<Rightarrow> string list option" where
  "pdf_row rt ord =
     (case date_getTime rt (order_date ord) of
        None \<Rightarrow> None
      | Some _ \<Rightarrow>
          Some [order_addedBy ord, status_label (order_status ord),
                split_T_first (date_toISOString rt (order_date ord)),
                pdf_ref_cell ord, order_name ord, type_label (order_type ord)])"

definition pdf_body :: "js_runtime \<Rightarrow> Order list \<Rightarrow> string list list option" where
  "pdf_body rt fs = those (map (pdf_row rt) fs)"

text \<open>
  The \<open>try\<close> block: \<open>None\<close> when anything in it throws. \<open>lib_ok\<close> says that the calls
  into the jsPDF library (declared \<open>any\<close> in the source) return normally.
\<close>

definition pdf_try ::
  "js_runtime \<Rightarrow> font_fetch \<Rightarrow> bool \<Rightarrow> string \<Rightarrow> Order list \<Rightarrow> pdf_doc option" where
  "pdf_try rt fetched lib_ok now fs =
     (case fetched of
        FetchRejects \<Rightarrow> None
      | ResponseNotOk statusText \<Rightarrow> None
      | BodyRejects \<Rightarrow> None
      | FontBytes fontBuffer \<Rightarrow>
          if \<not> lib_ok then None
          else (case pdf_body rt fs of
                  None \<Rightarrow> None
                | Some body \<Rightarrow>
                    Some \<lparr>doc_font = arrayBufferToBase64 rt fontBuffer,
                          doc_title = txt_pdf_title,
                          doc_head = pdf_head,
                          doc_body = body,
                          doc_filename = txt_report_prefix @ split_T_first now @ ''.pdf''\<rparr>))"

fun font_obtained :: "font_fetch \<Rightarrow> bool" where
  "font_obtained (FontBytes fontBuffer) = True"
| "font_obtained fetched = False"

text \<open>The messages of the error toasts among the effects, and the documents saved.\<close>

fun error_toasts :: "effect list \<Rightarrow> string list" where
  "error_toasts [] = []"
| "error_toasts (ShowToast msg ToastError # es) = msg # error_toasts es"
| "error_toasts (e # es) = error_toasts es"

fun saved_documents :: "effect list \<Rightarrow> pdf_doc list" where
  "saved_documents [] = []"
| "saved_documents (SaveDocument doc # es) = doc # saved_documents es"
| "saved_documents (e # es) = saved_documents es"

definition handleExportPDF ::
  "js_runtime \<Rightarrow> view_params \<Rightarrow> font_fetch \<Rightarrow> bool \<Rightarrow> string \<Rightarrow> app_state
     \<Rightarrow> effect list \<times> app_state" where
  "handleExportPDF rt p fetched lib_ok now st =
     (let fs = filteredAndSortedOrders rt p (orders st)
      in if length fs = 0 then
           ([ShowToast msg_no_data ToastError], showToast msg_no_data ToastError st)
         else
           (case pdf_try rt fetched lib_ok now fs of
              None \<Rightarrow>
                ([ShowToast msg_pdf_preparing ToastSuccess, ConsoleError,
                  ShowToast msg_pdf_failed ToastError],
                 showToast msg_pdf_failed ToastError
                   (showToast msg_pdf_preparing ToastSuccess st))
            | Some doc \<Rightarrow>
                ([ShowToast msg_pdf_preparing ToastSuccess, SaveDocument doc,
                  ShowToast msg_pdf_done ToastSuccess],
                 showToast msg_pdf_done ToastSuccess
                   (showToast msg_pdf_preparing ToastSuccess st))))"

section \<open>Table cell and summary line (OrderTable; geminiService: generateOrderSummary)\<close>

definition table_ref_cell :: "Order \<Rightarrow> string" where
  "table_ref_cell ord = toArabicNumerals (Some (ref_or (order_ref ord) ''N/A''))"

definition summary_line :: "js_runtime \<Rightarrow> Order \<Rightarrow> string" where
  "summary_line rt ord =
     txt_sum_type @ type_label (order_type ord) @ txt_sum_name @ order_name ord @
     txt_sum_ref @ ref_or (order_ref ord) txt_sum_no_ref @
     txt_sum_status @ status_label (order_status ord) @
     txt_sum_date @ toLocaleDateString_arEG rt (order_date ord)"

text \<open>An order with the empty string as ref, turned into the order without ref.\<close>

definition drop_empty_ref :: "Order \<Rightarrow> Order" where
  "drop_empty_ref ord = (if order_ref ord = Some [] then ord\<lparr>order_ref := None\<rparr> else ord)"

section \<open>The specification's wording, for comparison with the code\<close>

text \<open>
  The filter as the specification words it: three predicates, joined by conjunction.
  Case-insensitive substring match is containment of the lower-cased term in the
  lower-cased text.
\<close>

definition ci_substring :: "js_runtime \<Rightarrow> string \<Rightarrow> string \<Rightarrow> bool" where
  "ci_substring rt term text = js_includes (toLowerCase rt text) (toLowerCase rt term)"

definition spec_text_match :: "js_runtime \<Rightarrow> string \<Rightarrow> Order \<Rightarrow> bool" where
  "spec_text_match rt term ord =
     (term = [] \<or> ci_substring rt term (order_name ord) \<or>
      (case order_ref ord of None \<Rightarrow> False | Some r \<Rightarrow> ci_substring rt term r))"

definition spec_date_match :: "string \<Rightarrow> Order \<Rightarrow> bool" where
  "spec_date_match df ord = (df = [] \<or> prefix df (order_date ord))"

definition spec_status_match :: "OrderStatus option \<Rightarrow> Order \<Rightarrow> bool" where
  "spec_status_match sf ord = (sf = None \<or> sf = Some (order_status ord))"

definition spec_matches :: "js_runtime \<Rightarrow> view_params \<Rightarrow> Order \<Rightarrow> bool" where
  "spec_matches rt p ord =
     (spec_text_match rt (searchTerm p) ord \<and> spec_date_match (dateFilter p) ord \<and>
      spec_status_match (statusFilter p) ord)"

text \<open>
  Standard CSV parsing of one record (RFC 4180): fields are separated by commas; a field
  that starts with a double quote runs to the closing quote, a doubled quote inside it
  standing for one quote; outside quotes a double quote, a carriage return and a line
  feed are not field data. \<open>None\<close> is a malformed record.
\<close>





text \<open>
  What the sort modes ask of the runtime's collator: a consistent comparison (any two
  strings are comparable and the order is transitive), digit strings ordered by their
  numeric value, and the empty string before every other.
\<close>

definition digits_value :: "string \<Rightarrow> nat" where
  "digits_value s = foldl (\<lambda>acc c. 10 * acc + (of_char c - 48)) 0 s"





section \<open>A sample runtime and sample data\<close>

text \<open>
  One runtime to run the model on concrete inputs: ASCII lower-casing, comparison by
  bytes, comparison by bytes with digit runs read as numbers, dates \<open>YYYY-MM-DD\<close> read
  as the number \<open>YYYYMMDD\<close>. It stands for no particular browser.
\<close>

definition ascii_lower :: "char \<Rightarrow> char" where
  "ascii_lower c =
     (case map_of (zip ''ABCDEFGHIJKLMNOPQRSTUVWXYZ'' ''abcdefghijklmnopqrstuvwxyz'') c of
        None \<Rightarrow> c
      | Some l \<Rightarrow> l)"

definition cmp_by :: "('a \<Rightarrow> 'k::linorder) \<Rightarrow> 'a \<Rightarrow> 'a \<Rightarrow> int" where
  "cmp_by key a b = (if key a < key b then - 1 else if key a = key b then 0 else 1)"

definition byte_key :: "string \<Rightarrow> nat list" where
  "byte_key s = map of_char s"

function natural_key :: "string \<Rightarrow> (nat \<times> nat) list" where
  "natural_key [] = []"
| "natural_key (c # cs) =
     (if is_digit c
      then (0, digits_value (c # takeWhile is_digit cs)) # natural_key (dropWhile is_digit cs)
      else (1, of_char c) # natural_key cs)"
  by pat_completeness auto
termination
  by (relation "measure length") (auto simp: le_imp_less_Suc length_dropWhile_le)

definition sample_getTime :: "string \<Rightarrow> int option" where
  "sample_getTime s =
     (let ds = filter (\<lambda>c. c \<noteq> CHR ''-'') s
      in if length ds = 8 \<and> list_all is_digit ds then Some (int (digits_value ds)) else None)"

definition sample_runtime :: js_runtime where
  "sample_runtime =
     \<lparr>toLowerCase = map ascii_lower,
      localeCompare_ar = cmp_by byte_key,
      localeCompare_numeric = cmp_by natural_key,
      date_getTime = sample_getTime,
      toLocaleDateString_arEG = (\<lambda>s. toArabicNumerals (Some s)),
      date_toISOString = (\<lambda>s. s @ ''T00:00:00.000Z''),
      btoa = (\<lambda>s. s)\<rparr>"

definition sample_order :: "string \<Rightarrow> string option \<Rightarrow> OrderType \<Rightarrow> Order" where
  "sample_order i r ty =
     \<lparr>order_id = i, order_name = ''order '' @ i, order_ref = r, order_date = ''2024-03-15'',
      order_type = ty, order_status = Pending, order_addedBy = ''admin@example.com''\<rparr>"

definition sample_params :: view_params where
  "sample_params = \<lparr>searchTerm = [], dateFilter = [], statusFilter = None, sortOption = ''date-desc''\<rparr>"

definition sample_search_params :: view_params where
  "sample_search_params =
     \<lparr>searchTerm = ''INV'', dateFilter = ''2024-03'', statusFilter = Some Pending,
      sortOption = ''ref-asc''\<rparr>"


definition sample_state :: "Order list \<Rightarrow> string set \<Rightarrow> app_state" where
  "sample_state os sel = \<lparr>orders = os, selectedOrders = sel, toast = None, confirmModal = None\<rparr>"

text \<open>
  The count as the specification words it: the number of selected ids that are still
  present in the current record set.
\<close>

definition spec_selection_count_display :: "bool \<Rightarrow> app_state \<Rightarrow> string option" where
  "spec_selection_count_display isAdmin st =
     (if isAdmin \<and> card (selectedOrders st \<inter> order_id ` set (orders st)) > 0
      then Some (toArabicNumerals
                  (Some (decimal (card (selectedOrders st \<inter> order_id ` set (orders st))))))
      else None)"

section \<open>Sorting and the sample runtime: basic facts\<close>


lemma mset_insert_by: "mset (insert_by cmp x xs) = add_mset x (mset xs)"
  by (induction xs) auto

lemma mset_js_sort: "mset (js_sort cmp xs) = mset xs"
  unfolding js_sort_def by (induction xs) (auto simp: mset_insert_by)

lemma set_js_sort: "set (js_sort cmp xs) = set xs"
  using mset_js_sort [of cmp xs] by (metis set_mset_mset)

lemma js_includes_Nil: "js_includes s []"
  by (induction s) auto

lemma sample_filtered_all: "filtered sample_runtime sample_params os = os"
  unfolding filtered_def sample_params_def sample_runtime_def matchesSearch_def
    matchesDate_def matchesStatus_def
  by (simp add: js_includes_Nil)

lemma visible_ids_sample:
  "visible_ids sample_runtime sample_params ty (sample_state os S) =
     order_id ` set (filter (\<lambda>ord. order_type ord = ty) os)"
  unfolding visible_ids_def filteredAndSortedOrders_def
  by (simp add: sample_filtered_all set_js_sort sample_state_def)

lemma decimal_Suc_0: "decimal (Suc 0) = ''1''"
  by (simp add: decimal.simps)

section \<open>Selection tracker: properties\<close>

lemma delete_each_eq: "delete_each os S = S - order_id ` set os"
  unfolding delete_each_def by (induction os arbitrary: S) auto

lemma add_each_eq: "add_each os S = S \<union> order_id ` set os"
  unfolding add_each_def by (induction os arbitrary: S) auto

lemma handleSelectAll_eq:
  "handleSelectAll ty inc exp S S =
     (let V = order_id ` set (if ty = Income then inc else exp)
      in if V \<subseteq> S then S - V else S \<union> V)"
  unfolding handleSelectAll_def Let_def
  by (auto simp: delete_each_eq add_each_eq list_all_iff)

lemma partition_of_type:
  "(if ty = Income then incomeOrders fs else expenseOrders fs) =
     filter (\<lambda>ord. order_type ord = ty) fs"
  unfolding incomeOrders_def expenseOrders_def by (cases ty) auto

lemma selectAllVisible_selected:
  "selectedOrders (selectAllVisible rt p ty st) =
     (if visible_ids rt p ty st \<subseteq> selectedOrders st
      then selectedOrders st - visible_ids rt p ty st
      else selectedOrders st \<union> visible_ids rt p ty st)"
  unfolding selectAllVisible_def visible_ids_def Let_def
  by (simp add: handleSelectAll_eq partition_of_type Let_def del: set_filter)

lemma selectAllVisible_orders: "orders (selectAllVisible rt p ty st) = orders st"
  unfolding selectAllVisible_def Let_def by simp

lemma visible_ids_selectAllVisible:
  "visible_ids rt p ty (selectAllVisible rt p ty st) = visible_ids rt p ty st"
  unfolding visible_ids_def by (simp add: selectAllVisible_orders)

lemma selectAllVisible_twice_eq:
  "selectedOrders (selectAllVisible rt p ty (selectAllVisible rt p ty st)) =
     (if visible_ids rt p ty st \<subseteq> selectedOrders st then selectedOrders st
      else selectedOrders st - visible_ids rt p ty st)"
  by (auto simp: selectAllVisible_selected visible_ids_selectAllVisible)

text \<open>
  Claim C1, as stated: two successive calls of \<open>selectAllVisible\<close> with the same visible
  set return the selection to its prior state, for every selection and every visible
  set. It fails when the visible set is partly selected: with orders \<open>a\<close> and \<open>b\<close>
  visible and only \<open>a\<close> selected, the first call selects both and the second deselects
  both, so \<open>a\<close> is lost.
\<close>

theorem selectAllVisible_roundtrip_counterexample:
  "selectedOrders
     (selectAllVisible sample_runtime sample_params Income
       (selectAllVisible sample_runtime sample_params Income
         (sample_state [sample_order ''a'' None Income, sample_order ''b'' None Income] {''a''})))
   \<noteq> selectedOrders
        (sample_state [sample_order ''a'' None Income, sample_order ''b'' None Income] {''a''})"
  by (simp add: selectAllVisible_twice_eq visible_ids_sample)
     (simp add: sample_state_def sample_order_def)

text \<open>
  Claim C1, amended: after two successive calls the selection is the prior selection
  \<open>S\<close> when every visible id was selected, and \<open>S\<close> without the visible ids otherwise.
  So the selection returns to \<open>S\<close> exactly when the visible set was wholly selected or
  wholly unselected.
\<close>

theorem selectAllVisible_twice:
  "selectedOrders (selectAllVisible rt p ty (selectAllVisible rt p ty st)) =
     (if visible_ids rt p ty st \<subseteq> selectedOrders st then selectedOrders st
      else selectedOrders st - visible_ids rt p ty st)
   \<and> ((selectedOrders (selectAllVisible rt p ty (selectAllVisible rt p ty st)) = selectedOrders st)
        = (visible_ids rt p ty st \<subseteq> selectedOrders st
            \<or> visible_ids rt p ty st \<inter> selectedOrders st = {}))"
  unfolding selectAllVisible_twice_eq by auto

theorem selectAllVisible_twice_witness:
  "selectedOrders
     (selectAllVisible sample_runtime sample_params Income
       (selectAllVisible sample_runtime sample_params Income
         (sample_state [sample_order ''a'' None Income, sample_order ''b'' None Income] {''c''})))
   = selectedOrders
       (sample_state [sample_order ''a'' None Income, sample_order ''b'' None Income] {''c''})"
proof -
  have disjoint:
    "visible_ids sample_runtime sample_params Income
       (sample_state [sample_order ''a'' None Income, sample_order ''b'' None Income] {''c''})
     \<inter> selectedOrders
         (sample_state [sample_order ''a'' None Income, sample_order ''b'' None Income] {''c''})
     = {}"
    by (simp add: visible_ids_sample) (simp add: sample_state_def sample_order_def)
  note inst = selectAllVisible_twice [of sample_runtime sample_params Income
      "sample_state [sample_order ''a'' None Income, sample_order ''b'' None Income] {''c''}"]
  from disjoint show ?thesis
    by (intro inst [THEN conjunct2, THEN iffD2] disjI2)
qed

text \<open>
  Claim C9: toggling an id adds it when it is absent and removes it when it is present,
  leaves the membership of every other id unchanged, and toggling the same id twice
  returns the selection to exactly what it was.
\<close>

theorem handleSelectOrder_involution:
  "(x \<notin> S \<longrightarrow> handleSelectOrder x S = insert x S) \<and>
   (x \<in> S \<longrightarrow> handleSelectOrder x S = S - {x}) \<and>
   (\<forall>y. y \<noteq> x \<longrightarrow> (y \<in> handleSelectOrder x S) = (y \<in> S)) \<and>
   handleSelectOrder x (handleSelectOrder x S) = S"
  unfolding handleSelectOrder_def by auto

theorem handleSelectOrder_involution_witness:
  "handleSelectOrder ''b'' {''a''} = insert ''b'' {''a''} \<and>
   handleSelectOrder ''a'' {''a'', ''c''} = {''a'', ''c''} - {''a''} \<and>
   (''a'' \<in> handleSelectOrder ''b'' {''a''}) = (''a'' \<in> {''a''}) \<and>
   handleSelectOrder ''b'' (handleSelectOrder ''b'' {''a''}) = {''a''}"
proof -
  note absent = handleSelectOrder_involution [of "''b''" "{''a''}"]
  note present = handleSelectOrder_involution [of "''a''" "{''a'', ''c''}"]
  have b_absent: "''b'' \<notin> {''a''}" and a_present: "''a'' \<in> {''a'', ''c''}"
    and other: "''a'' \<noteq> ''b''"
    by simp_all
  note added = absent [THEN conjunct1, THEN mp, OF b_absent]
  note removed = present [THEN conjunct2, THEN conjunct1, THEN mp, OF a_present]
  note frame = absent [THEN conjunct2, THEN conjunct2, THEN conjunct1, THEN spec,
    of "''a''", THEN mp, OF other]
  note twice = absent [THEN conjunct2, THEN conjunct2, THEN conjunct2]
  show ?thesis
    by (intro conjI) (rule added removed frame twice)+
qed

text \<open>
  Claim C2, as stated: when a snapshot replaces the record set, the selected ids that
  are not in the new record set are dropped, and the displayed count is the number of
  selected ids still present. It fails: with \<open>a\<close> selected and an empty snapshot arriving,
  \<open>a\<close> stays selected and the count shown is one, where no selected id is present.
\<close>

theorem stale_selection_counterexample:
  "''a'' \<in> selectedOrders (setOrders [] (sample_state [sample_order ''a'' None Income] {''a''})) \<and>
   ''a'' \<notin> order_id ` set (orders (setOrders [] (sample_state [sample_order ''a'' None Income] {''a''}))) \<and>
   selection_count_display True (setOrders [] (sample_state [sample_order ''a'' None Income] {''a''}))
     = Some (toArabicNumerals (Some ''1'')) \<and>
   spec_selection_count_display True
       (setOrders [] (sample_state [sample_order ''a'' None Income] {''a''}))
     = None"
  by (simp add: setOrders_def sample_state_def selection_count_display_def
        spec_selection_count_display_def decimal_Suc_0)

text \<open>
  Claim C2, amended: a snapshot replaces the record set and nothing else. The selection
  keeps every id it had, present in the new record set or not; the displayed count is the
  size of the whole selection; and it is the number of selected ids still present whenever
  every selected id is in the new record set.
\<close>

theorem setOrders_keeps_selection:
  "orders (setOrders snapshot st) = snapshot \<and>
   selectedOrders (setOrders snapshot st) = selectedOrders st \<and>
   toast (setOrders snapshot st) = toast st \<and>
   confirmModal (setOrders snapshot st) = confirmModal st \<and>
   selection_count_display isAdmin (setOrders snapshot st) =
     (if isAdmin \<and> card (selectedOrders st) > 0
      then Some (toArabicNumerals (Some (decimal (card (selectedOrders st))))) else None) \<and>
   (selectedOrders st \<subseteq> order_id ` set snapshot \<longrightarrow>
      selection_count_display isAdmin (setOrders snapshot st) =
      spec_selection_count_display isAdmin (setOrders snapshot st))"
  unfolding setOrders_def selection_count_display_def spec_selection_count_display_def
  by (simp add: Int_absorb2)

theorem setOrders_keeps_selection_witness:
  "selectedOrders (setOrders [sample_order ''a'' None Income] (sample_state [] {''a''})) = {''a''} \<and>
   selection_count_display True (setOrders [sample_order ''a'' None Income] (sample_state [] {''a''}))
     = spec_selection_count_display True
         (setOrders [sample_order ''a'' None Income] (sample_state [] {''a''}))"
proof -
  have sel: "selectedOrders (sample_state [] {''a''}) = {''a''}"
    by (simp add: sample_state_def)
  have present:
    "selectedOrders (sample_state [] {''a''}) \<subseteq> order_id ` set [sample_order ''a'' None Income]"
    by (simp add: sample_state_def sample_order_def)
  note inst = setOrders_keeps_selection
    [of "[sample_order ''a'' None Income]" "sample_state [] {''a''}" True]
  from inst have kept:
    "selectedOrders (setOrders [sample_order ''a'' None Income] (sample_state [] {''a''}))
       = selectedOrders (sample_state [] {''a''})"
    by (elim conjE)
  from inst present have shown:
    "selection_count_display True (setOrders [sample_order ''a'' None Income] (sample_state [] {''a''}))
       = spec_selection_count_display True
           (setOrders [sample_order ''a'' None Income] (sample_state [] {''a''}))"
    by (elim conjE impE)
  from kept sel shown show ?thesis by (simp only: simp_thms)
qed

section \<open>Batch delete: the rejected commit\<close>

text \<open>
  Claim C3: when the batch delete fails, the selection is left as it was, no success
  notification is emitted, and a failure is surfaced to the user. The code does the
  first two and misses the third: the rejected promise leaves \<open>onConfirm\<close> at the
  \<open>await\<close>, no toast of either type is shown, the state (confirm dialog included) is
  what it was, and the rejection is returned unhandled.
\<close>

theorem onConfirm_commit_rejects:
  "onConfirm CommitRejects ids store st = (Rejected, [], st, store)"
  unfolding onConfirm_def deleteOrders_def by simp

text \<open>
  The sibling path: a resolved commit deletes the captured ids, clears the selection and
  shows the success toast. Through the dialog, the ids are those selected when it was
  opened.
\<close>

lemma onConfirm_commit_resolves:
  "onConfirm CommitResolves ids store st =
     (Fulfilled, [ShowToast msg_deleted ToastSuccess],
      st\<lparr>selectedOrders := {}, toast := Some (msg_deleted, ToastSuccess), confirmModal := None\<rparr>,
      (\<lambda>k. if k \<in> ids then None else store k))"
  unfolding onConfirm_def deleteOrders_def showToast_def by simp

lemma confirm_click_after_open:
  "card (selectedOrders st) \<noteq> 0 \<Longrightarrow>
   confirm_click c store ((handleDeleteSelected st)\<lparr>selectedOrders := later\<rparr>) =
     Some (onConfirm c (selectedOrders st) store
             ((handleDeleteSelected st)\<lparr>selectedOrders := later\<rparr>))"
  unfolding confirm_click_def handleDeleteSelected_def by simp

section \<open>Projection pipeline: properties\<close>

lemma partition_by_type:
  "mset (incomeOrders fs) + mset (expenseOrders fs) = mset fs
   \<and> fs \<in> shuffles (incomeOrders fs) (expenseOrders fs)
   \<and> subseq (incomeOrders fs) fs \<and> subseq (expenseOrders fs) fs
   \<and> set (incomeOrders fs) \<inter> set (expenseOrders fs) = {}
   \<and> list_all (\<lambda>ord. order_type ord = Income) (incomeOrders fs)
   \<and> list_all (\<lambda>ord. order_type ord = Expense) (expenseOrders fs)"
proof -
  have exp: "expenseOrders fs = filter (\<lambda>ord. \<not> order_type ord = Income) fs"
    unfolding expenseOrders_def
    by (rule filter_cong) (auto intro: OrderType.exhaust)
  have "mset (incomeOrders fs) + mset (expenseOrders fs) = mset fs"
    unfolding exp incomeOrders_def by simp
  moreover have "fs \<in> shuffles (incomeOrders fs) (expenseOrders fs)"
    unfolding exp incomeOrders_def by (rule partition_in_shuffles)
  moreover have "subseq (incomeOrders fs) fs" "subseq (expenseOrders fs) fs"
    unfolding incomeOrders_def expenseOrders_def by simp_all
  moreover have "set (incomeOrders fs) \<inter> set (expenseOrders fs) = {}"
    unfolding incomeOrders_def expenseOrders_def by auto
  moreover have "list_all (\<lambda>ord. order_type ord = Income) (incomeOrders fs)"
    "list_all (\<lambda>ord. order_type ord = Expense) (expenseOrders fs)"
    unfolding incomeOrders_def expenseOrders_def by (simp_all add: list_all_iff)
  ultimately show ?thesis by simp
qed

text \<open>
  Claim C4: the projection places every order that passes the filter into exactly one of
  the income and expense sequences, by its type; each sequence is a subsequence of the
  sorted list, so it keeps the sorted order; and the two sequences interleave to the
  sorted, filtered list, with the same orders the same number of times. The partition
  facts hold of every list, whatever order the sort gave it.
\<close>

theorem projection_partition:
  "(let fs = filteredAndSortedOrders rt p os;
        inc = incomeOrders fs;
        exp = expenseOrders fs
    in mset fs = mset (filtered rt p os)
       \<and> mset inc + mset exp = mset fs
       \<and> fs \<in> shuffles inc exp
       \<and> subseq inc fs \<and> subseq exp fs
       \<and> set inc \<inter> set exp = {}
       \<and> list_all (\<lambda>ord. order_type ord = Income) inc
       \<and> list_all (\<lambda>ord. order_type ord = Expense) exp)
   \<and> (\<forall>xs. mset (incomeOrders xs) + mset (expenseOrders xs) = mset xs
            \<and> xs \<in> shuffles (incomeOrders xs) (expenseOrders xs)
            \<and> set (incomeOrders xs) \<inter> set (expenseOrders xs) = {})"
  unfolding Let_def
  using partition_by_type [of "filteredAndSortedOrders rt p os"] partition_by_type
  by (simp add: filteredAndSortedOrders_def mset_js_sort)

section \<open>Filter engine: the code against the specification's wording\<close>

lemma matchesSearch_spec:
  assumes "toLowerCase rt [] = []"
  shows "matchesSearch rt term ord = spec_text_match rt term ord"
proof (cases "term = []")
  case True
  with assms show ?thesis
    by (simp add: matchesSearch_def spec_text_match_def js_includes_Nil)
next
  case False
  show ?thesis
  proof (cases "order_ref ord")
    case None
    with False show ?thesis
      by (simp add: matchesSearch_def spec_text_match_def ci_substring_def)
  next
    case (Some r)
    show ?thesis
    proof (cases "r = []")
      case True
      with Some False assms show ?thesis
        by (auto simp: matchesSearch_def spec_text_match_def ci_substring_def js_includes_Nil)
    next
      case nonempty: False
      with Some False show ?thesis
        by (simp add: matchesSearch_def spec_text_match_def ci_substring_def Let_def)
    qed
  qed
qed

lemma matchesDate_spec: "matchesDate df ord = spec_date_match df ord"
  by (simp add: matchesDate_def spec_date_match_def startsWith_def)

lemma matchesStatus_spec: "matchesStatus sf ord = spec_status_match sf ord"
  by (cases sf) (auto simp: matchesStatus_def spec_status_match_def)

text \<open>
  Claim C5: the filter keeps exactly the orders that satisfy the conjunction of the text,
  date-prefix and status predicates of the specification, in their relative order. The
  runtime's lower-casing is only asked to map the empty string to the empty string.
\<close>

theorem filtered_is_spec_filter:
  assumes "toLowerCase rt [] = []"
  shows "filtered rt p os = filter (spec_matches rt p) os \<and> subseq (filtered rt p os) os"
  unfolding filtered_def spec_matches_def
  by (simp add: matchesSearch_spec [OF assms] matchesDate_spec matchesStatus_spec)

theorem filtered_is_spec_filter_witness:
  "filtered sample_runtime sample_search_params
     [sample_order ''a'' (Some ''inv-7'') Income, sample_order ''b'' None Expense]
   = filter (spec_matches sample_runtime sample_search_params)
       [sample_order ''a'' (Some ''inv-7'') Income, sample_order ''b'' None Expense]
   \<and> filtered sample_runtime sample_search_params
       [sample_order ''a'' (Some ''inv-7'') Income, sample_order ''b'' None Expense]
     = [sample_order ''a'' (Some ''inv-7'') Income]"
proof -
  have lower: "toLowerCase sample_runtime [] = []"
    by (simp add: sample_runtime_def)
  note inst = filtered_is_spec_filter [OF lower, of sample_search_params
    "[sample_order ''a'' (Some ''inv-7'') Income, sample_order ''b'' None Expense]",
    THEN conjunct1]
  have evaluated:
    "filtered sample_runtime sample_search_params
       [sample_order ''a'' (Some ''inv-7'') Income, sample_order ''b'' None Expense]
     = [sample_order ''a'' (Some ''inv-7'') Income]"
    by (simp add: filtered_def matchesSearch_def matchesDate_def matchesStatus_def
          startsWith_def sample_search_params_def sample_runtime_def sample_order_def
          ascii_lower_def)
  from inst evaluated show ?thesis by (intro conjI)
qed

section \<open>Sort engine: the reference modes\<close>

























section \<open>CSV export: properties\<close>

















section \<open>PDF export: the guarded paths\<close>

lemma sample_projection_single:
  "filteredAndSortedOrders sample_runtime sample_params [ord] = [ord]"
  by (simp add: filteredAndSortedOrders_def sample_filtered_all js_sort_def)

lemma projection_of_nothing: "filteredAndSortedOrders rt p [] = []"
  by (simp add: filteredAndSortedOrders_def filtered_def js_sort_def)

lemma pdf_try_without_font: "\<not> font_obtained fetched \<Longrightarrow> pdf_try rt fetched lib_ok now fs = None"
  by (cases fetched) (simp_all add: pdf_try_def)

text \<open>
  Claim C8: with an empty projection the PDF export shows one error message and stops,
  saving no document; and when the font cannot be obtained (the request rejects, the
  response is not ok, or its body cannot be read) the failure is caught in the handler:
  it returns normally, having logged the error and shown exactly one error message, and
  no document is saved.
\<close>

theorem pdf_export_guards:
  "(filteredAndSortedOrders rt p (orders st) = [] \<longrightarrow>
      handleExportPDF rt p fetched lib_ok now st =
        ([ShowToast msg_no_data ToastError], showToast msg_no_data ToastError st) \<and>
      saved_documents (fst (handleExportPDF rt p fetched lib_ok now st)) = []) \<and>
   (filteredAndSortedOrders rt p (orders st) \<noteq> [] \<and> \<not> font_obtained fetched \<longrightarrow>
      handleExportPDF rt p fetched lib_ok now st =
        ([ShowToast msg_pdf_preparing ToastSuccess, ConsoleError,
          ShowToast msg_pdf_failed ToastError],
         showToast msg_pdf_failed ToastError (showToast msg_pdf_preparing ToastSuccess st)) \<and>
      error_toasts (fst (handleExportPDF rt p fetched lib_ok now st)) = [msg_pdf_failed] \<and>
      saved_documents (fst (handleExportPDF rt p fetched lib_ok now st)) = [] \<and>
      toast (snd (handleExportPDF rt p fetched lib_ok now st)) = Some (msg_pdf_failed, ToastError))"
  by (simp add: handleExportPDF_def Let_def pdf_try_without_font showToast_def)

theorem pdf_export_guards_witness:
  "handleExportPDF sample_runtime sample_params (FontBytes ''font'') True ''2024-03-15T10:00:00.000Z''
     (sample_state [] {})
   = ([ShowToast msg_no_data ToastError], showToast msg_no_data ToastError (sample_state [] {})) \<and>
   error_toasts (fst (handleExportPDF sample_runtime sample_params (ResponseNotOk ''Not Found'') True
      ''2024-03-15T10:00:00.000Z'' (sample_state [sample_order ''a'' None Income] {})))
   = [msg_pdf_failed] \<and>
   saved_documents (fst (handleExportPDF sample_runtime sample_params (ResponseNotOk ''Not Found'') True
      ''2024-03-15T10:00:00.000Z'' (sample_state [sample_order ''a'' None Income] {})))
   = []"
proof -
  have empty: "filteredAndSortedOrders sample_runtime sample_params (orders (sample_state [] {})) = []"
    by (simp add: sample_state_def projection_of_nothing)
  have failing:
    "filteredAndSortedOrders sample_runtime sample_params
       (orders (sample_state [sample_order ''a'' None Income] {})) \<noteq> []
     \<and> \<not> font_obtained (ResponseNotOk ''Not Found'')"
    by (simp add: sample_state_def sample_projection_single)
  note short_circuit = pdf_export_guards [where rt = sample_runtime and p = sample_params
    and st = "sample_state [] {}" and fetched = "FontBytes ''font''" and lib_ok = True
    and now = "''2024-03-15T10:00:00.000Z''",
    THEN conjunct1, THEN mp, OF empty, THEN conjunct1]
  note caught = pdf_export_guards [where rt = sample_runtime and p = sample_params
    and st = "sample_state [sample_order ''a'' None Income] {}"
    and fetched = "ResponseNotOk ''Not Found''" and lib_ok = True
    and now = "''2024-03-15T10:00:00.000Z''",
    THEN conjunct2, THEN mp, OF failing]
  note one_message = caught [THEN conjunct2, THEN conjunct1]
  note no_document = caught [THEN conjunct2, THEN conjunct2, THEN conjunct1]
  show ?thesis
    by (intro conjI) (rule short_circuit one_message no_document)+
qed

section \<open>The empty ref and the absent ref\<close>

lemma ref_or_drop_empty: "ref_or (order_ref (drop_empty_ref ord)) d = ref_or (order_ref ord) d"
  by (simp add: drop_empty_ref_def ref_or_def)

lemma drop_empty_ref_fields:
  "order_id (drop_empty_ref ord) = order_id ord"
  "order_name (drop_empty_ref ord) = order_name ord"
  "order_date (drop_empty_ref ord) = order_date ord"
  "order_type (drop_empty_ref ord) = order_type ord"
  "order_status (drop_empty_ref ord) = order_status ord"
  "order_addedBy (drop_empty_ref ord) = order_addedBy ord"
  by (simp_all add: drop_empty_ref_def)

lemma compareOrders_drop_empty:
  "compareOrders rt opt (drop_empty_ref a) (drop_empty_ref b) = compareOrders rt opt a b"
  by (simp add: compareOrders_def date_diff_def ref_or_drop_empty drop_empty_ref_fields)

lemma matchesSearch_drop_empty:
  "matchesSearch rt term (drop_empty_ref ord) = matchesSearch rt term ord"
  by (cases "order_ref ord") (simp_all add: matchesSearch_def drop_empty_ref_def)

lemma matchesDate_drop_empty: "matchesDate df (drop_empty_ref ord) = matchesDate df ord"
  by (simp add: matchesDate_def drop_empty_ref_fields)

lemma matchesStatus_drop_empty: "matchesStatus sf (drop_empty_ref ord) = matchesStatus sf ord"
  by (cases sf) (simp_all add: matchesStatus_def drop_empty_ref_fields)

lemma filtered_drop_empty:
  "filtered rt p (map drop_empty_ref os) = map drop_empty_ref (filtered rt p os)"
  by (simp add: filtered_def filter_map comp_def matchesSearch_drop_empty
        matchesDate_drop_empty matchesStatus_drop_empty)

lemma insert_by_map:
  assumes "\<And>a b. cmp (f a) (f b) = cmp a b"
  shows "insert_by cmp (f x) (map f xs) = map f (insert_by cmp x xs)"
  by (induction xs) (simp_all add: assms)

lemma js_sort_map:
  assumes "\<And>a b. cmp (f a) (f b) = cmp a b"
  shows "js_sort cmp (map f xs) = map f (js_sort cmp xs)"
  unfolding js_sort_def
  by (induction xs) (simp_all add: insert_by_map [of cmp f, OF assms])

lemma projection_drop_empty:
  "filteredAndSortedOrders rt p (map drop_empty_ref os) =
     map drop_empty_ref (filteredAndSortedOrders rt p os)"
  unfolding filteredAndSortedOrders_def filtered_drop_empty
  by (rule js_sort_map) (rule compareOrders_drop_empty)

lemma csv_row_drop_empty: "csv_row rt (drop_empty_ref ord) = csv_row rt ord"
  by (simp add: csv_row_def csv_fields_def csv_ref_field_def ref_or_drop_empty
        drop_empty_ref_fields)

lemma pdf_row_drop_empty: "pdf_row rt (drop_empty_ref ord) = pdf_row rt ord"
  by (simp add: pdf_row_def pdf_ref_cell_def ref_or_drop_empty drop_empty_ref_fields
        split: option.split)

lemma table_NA: "toArabicNumerals (Some ''N/A'') = ''N/A''"
  by (simp add: toArabicNumerals_def is_digit_def)

text \<open>
  Claim C10: an order whose ref is the empty string is handled as an order without ref:
  both show \<open>N/A\<close> in the PDF row and in the table, the empty field in the CSV row, and
  compare alike in every sort mode; and replacing empty refs by absent ones in the record
  set changes nothing in the projection, the CSV content, the PDF body, the table cells
  or the summary lines.
\<close>

theorem empty_ref_is_absent_ref:
  "pdf_ref_cell (ord\<lparr>order_ref := Some []\<rparr>) = ''N/A'' \<and>
   pdf_ref_cell (ord\<lparr>order_ref := None\<rparr>) = ''N/A'' \<and>
   table_ref_cell (ord\<lparr>order_ref := Some []\<rparr>) = ''N/A'' \<and>
   table_ref_cell (ord\<lparr>order_ref := None\<rparr>) = ''N/A'' \<and>
   csv_ref_field (ord\<lparr>order_ref := Some []\<rparr>) = [] \<and>
   csv_ref_field (ord\<lparr>order_ref := None\<rparr>) = [] \<and>
   compareOrders rt opt (a\<lparr>order_ref := Some []\<rparr>) b = compareOrders rt opt (a\<lparr>order_ref := None\<rparr>) b \<and>
   compareOrders rt opt b (a\<lparr>order_ref := Some []\<rparr>) = compareOrders rt opt b (a\<lparr>order_ref := None\<rparr>) \<and>
   matchesSearch rt term (ord\<lparr>order_ref := Some []\<rparr>) = matchesSearch rt term (ord\<lparr>order_ref := None\<rparr>) \<and>
   filteredAndSortedOrders rt p (map drop_empty_ref os) =
     map drop_empty_ref (filteredAndSortedOrders rt p os) \<and>
   csvContent rt (map drop_empty_ref fs) = csvContent rt fs \<and>
   pdf_body rt (map drop_empty_ref fs) = pdf_body rt fs \<and>
   map table_ref_cell (map drop_empty_ref fs) = map table_ref_cell fs \<and>
   map (summary_line rt) (map drop_empty_ref fs) = map (summary_line rt) fs"
proof -
  have cells:
    "pdf_ref_cell (ord\<lparr>order_ref := Some []\<rparr>) = ''N/A''"
    "pdf_ref_cell (ord\<lparr>order_ref := None\<rparr>) = ''N/A''"
    "table_ref_cell (ord\<lparr>order_ref := Some []\<rparr>) = ''N/A''"
    "table_ref_cell (ord\<lparr>order_ref := None\<rparr>) = ''N/A''"
    "csv_ref_field (ord\<lparr>order_ref := Some []\<rparr>) = []"
    "csv_ref_field (ord\<lparr>order_ref := None\<rparr>) = []"
    by (simp_all add: pdf_ref_cell_def table_ref_cell_def csv_ref_field_def ref_or_def table_NA)
  have compare:
    "compareOrders rt opt (a\<lparr>order_ref := Some []\<rparr>) b = compareOrders rt opt (a\<lparr>order_ref := None\<rparr>) b"
    "compareOrders rt opt b (a\<lparr>order_ref := Some []\<rparr>) = compareOrders rt opt b (a\<lparr>order_ref := None\<rparr>)"
    by (simp_all add: compareOrders_def date_diff_def ref_or_def)
  have search:
    "matchesSearch rt term (ord\<lparr>order_ref := Some []\<rparr>) = matchesSearch rt term (ord\<lparr>order_ref := None\<rparr>)"
    by (simp add: matchesSearch_def)
  have csv: "csvContent rt (map drop_empty_ref fs) = csvContent rt fs"
    by (simp add: csvContent_def comp_def csv_row_drop_empty)
  have pdf: "pdf_body rt (map drop_empty_ref fs) = pdf_body rt fs"
    by (simp add: pdf_body_def comp_def pdf_row_drop_empty)
  have table: "map table_ref_cell (map drop_empty_ref fs) = map table_ref_cell fs"
    by (simp add: table_ref_cell_def ref_or_drop_empty)
  have summary: "map (summary_line rt) (map drop_empty_ref fs) = map (summary_line rt) fs"
    by (simp add: summary_line_def ref_or_drop_empty drop_empty_ref_fields)
  from cells compare search projection_drop_empty [of rt p os] csv pdf table summary
  show ?thesis by (intro conjI)
qed

end
